theory Spec2Isabelle
  imports Complex_Main
begin

section \<open>Data model\<close>

text \<open>
  Payloads exchanged with the remote queue are JSON values as Python's \<open>json\<close> module
  decodes them: \<open>None\<close>, \<open>bool\<close>, \<open>int\<close>, \<open>float\<close>, \<open>str\<close>, \<open>list\<close> and \<open>dict\<close>.
  A \<open>dict\<close> keeps insertion order, so an object is an association list.
  Numbers are exact: a Python \<open>float\<close> is modelled by the rational it denotes, so
  rounding, the finite range of doubles and the IEEE special values are not modelled.
\<close>

datatype json =
    JNull
  | JBool bool
  | JInt int
  | JFloat rat
  | JStr string
  | JArr "json list"
  | JObj "(string \<times> json) list"

type_synonym obj = "(string \<times> json) list"

text \<open>
  Exceptions. \<open>GenvoyToolError\<close> carries its stable code; the human message is kept only
  where a claim speaks about it (the terminal payload of a failed job).
  \<open>HTTPStatusError\<close> is a subclass of \<open>HTTPError\<close> in httpx; \<open>OtherException\<close> stands for
  every exception class outside these two hierarchies.
\<close>

datatype message = Text string | JobPayload obj

datatype exn =
    GenvoyToolError string message
  | HTTPStatusError
  | HTTPError
  | OtherException string

text \<open>
  Functions of the Python standard library and of httpx that the code calls but does not
  define are parameters of the model:
  \<^item> \<open>json_loads\<close>: \<open>json.loads\<close> (and \<open>Response.json\<close>); \<open>None\<close> is a decoding error;
  \<^item> \<open>str_of\<close>: \<open>str\<close> applied to a value that is not already a \<open>str\<close>;
  \<^item> \<open>float_of_str\<close>: \<open>float\<close> applied to a \<open>str\<close>; \<open>None\<close> is \<open>ValueError\<close>;
  \<^item> \<open>url_path_suffix\<close>: \<open>Path(urlparse(url).path).suffix\<close>.
\<close>

record pylib =
  json_loads :: "string \<Rightarrow> json option"
  str_of :: "json \<Rightarrow> string"
  float_of_str :: "string \<Rightarrow> rat option"
  url_path_suffix :: "string \<Rightarrow> string"

section \<open>Strings\<close>

text \<open>Characters are bytes; the string methods are modelled on ASCII.\<close>

definition is_space :: "char \<Rightarrow> bool" where
  "is_space c = ((9 \<le> (of_char c :: nat) \<and> (of_char c :: nat) \<le> 13)
                 \<or> (28 \<le> (of_char c :: nat) \<and> (of_char c :: nat) \<le> 32))"

definition lstrip :: "string \<Rightarrow> string" where
  "lstrip s = dropWhile is_space s"

definition rstrip :: "string \<Rightarrow> string" where
  "rstrip s = rev (dropWhile is_space (rev s))"

definition strip :: "string \<Rightarrow> string" where
  "strip s = rstrip (lstrip s)"

definition startswith :: "string \<Rightarrow> string \<Rightarrow> bool" where
  "startswith s p = (take (length p) s = p)"

fun contains :: "string \<Rightarrow> string \<Rightarrow> bool" where
  "contains [] sub = (sub = [])"
| "contains (c # cs) sub = (startswith (c # cs) sub \<or> contains cs sub)"

fun join_newline :: "string list \<Rightarrow> string" where
  "join_newline [] = []"
| "join_newline [x] = x"
| "join_newline (x # y # ys) = x @ [CHR 0x0A] @ join_newline (y # ys)"

definition upper_char :: "char \<Rightarrow> char" where
  "upper_char c = (if 97 \<le> (of_char c :: nat) \<and> (of_char c :: nat) \<le> 122
                   then char_of ((of_char c :: nat) - 32) else c)"

definition lower_char :: "char \<Rightarrow> char" where
  "lower_char c = (if 65 \<le> (of_char c :: nat) \<and> (of_char c :: nat) \<le> 90
                   then char_of ((of_char c :: nat) + 32) else c)"

definition upper :: "string \<Rightarrow> string" where
  "upper s = map upper_char s"

definition lower :: "string \<Rightarrow> string" where
  "lower s = map lower_char s"

definition is_digit :: "char \<Rightarrow> bool" where
  "is_digit c = (48 \<le> (of_char c :: nat) \<and> (of_char c :: nat) \<le> 57)"

definition digit_char :: "nat \<Rightarrow> char" where
  "digit_char d = char_of (48 + d)"

function string_of_nat :: "nat \<Rightarrow> string" where
  "string_of_nat n = (if n < 10 then [digit_char n]
                      else string_of_nat (n div 10) @ [digit_char (n mod 10)])"
  by pat_completeness auto
termination
  by (relation "measure id") auto

fun nat_of_digits :: "nat \<Rightarrow> string \<Rightarrow> nat" where
  "nat_of_digits acc [] = acc"
| "nat_of_digits acc (c # cs) = nat_of_digits (10 * acc + ((of_char c :: nat) - 48)) cs"

section \<open>Python values\<close>

text \<open>Truthiness of a value, \<open>dict.get\<close> (a missing key gives \<open>None\<close>) and \<open>a or b\<close>.\<close>

fun truthy :: "json \<Rightarrow> bool" where
  "truthy JNull = False"
| "truthy (JBool b) = b"
| "truthy (JInt i) = (i \<noteq> 0)"
| "truthy (JFloat f) = (f \<noteq> 0)"
| "truthy (JStr s) = (s \<noteq> [])"
| "truthy (JArr xs) = (xs \<noteq> [])"
| "truthy (JObj kvs) = (kvs \<noteq> [])"

definition dict_get :: "obj \<Rightarrow> string \<Rightarrow> json" where
  "dict_get d k = (case map_of d k of None \<Rightarrow> JNull | Some v \<Rightarrow> v)"

definition py_or :: "json \<Rightarrow> json \<Rightarrow> json" where
  "py_or a b = (if truthy a then a else b)"

definition py_str :: "pylib \<Rightarrow> json \<Rightarrow> string" where
  "py_str L v = (case v of JStr s \<Rightarrow> s | _ \<Rightarrow> str_of L v)"

section \<open>Remote job client (fal_client.py)\<close>

subsection \<open>\<open>FalClient._request\<close>\<close>

record response =
  status_code :: nat
  headers :: "string \<Rightarrow> string option"
  content :: string

definition BASE_API :: string where
  "BASE_API = ''https://api.fal.ai/v1''"

definition QUEUE_API :: string where
  "QUEUE_API = ''https://queue.fal.run''"

text \<open>\<open>Response.raise_for_status\<close> of httpx raises for every status outside 2xx.\<close>

definition is_success :: "response \<Rightarrow> bool" where
  "is_success r = (200 \<le> status_code r \<and> status_code r \<le> 299)"

text \<open>
  The argument \<open>sent\<close> is what \<open>self.client.request\<close> did: it raised, or it gave a
  response. Only \<open>httpx.HTTPError\<close> (with its subclasses) is caught.
\<close>

definition request :: "pylib \<Rightarrow> string \<Rightarrow> exn + response \<Rightarrow> exn + json" where
  "request L url sent =
     (case sent of
        Inl HTTPError \<Rightarrow>
          Inl (GenvoyToolError ''NETWORK_ERROR'' (Text ''fal.ai request failed''))
      | Inl HTTPStatusError \<Rightarrow>
          Inl (GenvoyToolError ''NETWORK_ERROR'' (Text ''fal.ai request failed''))
      | Inl e \<Rightarrow> Inl e
      | Inr r \<Rightarrow>
          if status_code r = 429 then
            Inl (GenvoyToolError ''RATE_LIMITED''
                   (Text (''Rate limited by fal.ai. Retry-After=''
                          @ (case headers r ''Retry-After'' of None \<Rightarrow> ''unknown'' | Some v \<Rightarrow> v)
                          @ ''.'')))
          else if status_code r = 404 then
            Inl (GenvoyToolError ''MODEL_NOT_FOUND'' (Text ''Model or request ID not found.''))
          else if status_code r = 403 \<and> contains url ''/models/usage'' then
            Inl (GenvoyToolError ''ADMIN_KEY_REQUIRED''
                   (Text ''fal.ai usage history requires an Admin API key.''))
          else if status_code r = 504
                  \<and> headers r ''X-Fal-Request-Timeout-Type'' = Some ''user'' then
            Inl (GenvoyToolError ''QUEUE_START_TIMEOUT''
                   (Text ''Queue job did not start within the requested timeout window.''))
          else if \<not> is_success r then
            Inl (GenvoyToolError ''FAL_API_ERROR''
                   (Text (string_of_nat (status_code r) @ '' response from fal.ai: ''
                          @ take 500 (content r))))
          else if content r = [] then Inr (JObj [])
          else (case json_loads L (content r) of
                  None \<Rightarrow>
                    Inl (GenvoyToolError ''INVALID_RESPONSE''
                           (Text ''fal.ai returned non-JSON payload.''))
                | Some v \<Rightarrow> Inr v))"

definition submit_job :: "pylib \<Rightarrow> string \<Rightarrow> exn + response \<Rightarrow> exn + json" where
  "submit_job L model_id sent = request L (QUEUE_API @ ''/'' @ model_id) sent"

definition get_job_status :: "pylib \<Rightarrow> string \<Rightarrow> string \<Rightarrow> exn + response \<Rightarrow> exn + json" where
  "get_job_status L model_id request_id sent =
     request L (QUEUE_API @ ''/'' @ model_id @ ''/requests/'' @ request_id @ ''/status'') sent"

definition get_job_result :: "pylib \<Rightarrow> string \<Rightarrow> string \<Rightarrow> exn + response \<Rightarrow> exn + json" where
  "get_job_result L model_id request_id sent =
     request L (QUEUE_API @ ''/'' @ model_id @ ''/requests/'' @ request_id) sent"

definition cancel_job :: "pylib \<Rightarrow> string \<Rightarrow> string \<Rightarrow> exn + response \<Rightarrow> exn + json" where
  "cancel_job L model_id request_id sent =
     request L (QUEUE_API @ ''/'' @ model_id @ ''/requests/'' @ request_id @ ''/cancel'') sent"

subsection \<open>\<open>FalClient._status_value\<close>\<close>

definition status_value :: "pylib \<Rightarrow> obj \<Rightarrow> string" where
  "status_value L payload =
     (case dict_get payload ''data'' of
        JObj nested \<Rightarrow>
          upper (py_str L
            (py_or (dict_get nested ''status'')
              (py_or (dict_get nested ''state'')
                (py_or (dict_get payload ''status'')
                  (py_or (dict_get payload ''state'') (JStr ''''))))))
      | _ \<Rightarrow>
          upper (py_str L
            (py_or (dict_get payload ''status'')
              (py_or (dict_get payload ''state'') (JStr '''')))))"

subsection \<open>\<open>FalClient.stream_job_status\<close>\<close>

text \<open>
  What the server did with the stream request: opening the stream raised, or it gave a
  response with a status code and the lines that \<open>aiter_lines\<close> yields, after which the
  iteration ends (\<open>None\<close>) or raises (a dropped connection, a read timeout).
\<close>

datatype stream_conn =
    ConnectFailed exn
  | Connected nat "string list" "exn option"

text \<open>
  The optional callback \<open>on_status\<close> may raise. The list of payloads it was called with
  is threaded through as the observable trace of the calls.
\<close>

type_synonym callback = "(obj \<Rightarrow> exn option) option"

definition notify :: "callback \<Rightarrow> obj \<Rightarrow> obj list \<Rightarrow> obj list \<times> exn option" where
  "notify on_status payload trace =
     (case on_status of
        None \<Rightarrow> (trace, None)
      | Some f \<Rightarrow> (trace @ [payload], f payload))"

definition is_terminal :: "string \<Rightarrow> bool" where
  "is_terminal state = (state = ''COMPLETED'' \<or> state = ''FAILED'')"

datatype loop_exit =
    Returned obj
  | Raised exn
  | Exhausted "obj option"

text \<open>
  The \<open>async for line in response.aiter_lines()\<close> loop, with its local variables
  \<open>data_lines\<close> and \<open>last_payload\<close>.
\<close>

fun sse_loop ::
  "pylib \<Rightarrow> callback \<Rightarrow> exn option \<Rightarrow> string list \<Rightarrow> string list \<Rightarrow> obj option \<Rightarrow> obj list
     \<Rightarrow> obj list \<times> loop_exit" where
  "sse_loop L on_status ending [] data_lines last_payload trace =
     (trace, case ending of None \<Rightarrow> Exhausted last_payload | Some e \<Rightarrow> Raised e)"
| "sse_loop L on_status ending (line # rest) data_lines last_payload trace =
     (if startswith line ''data:'' then
        sse_loop L on_status ending rest (data_lines @ [lstrip (drop 5 line)]) last_payload trace
      else if strip line \<noteq> [] then
        sse_loop L on_status ending rest data_lines last_payload trace
      else if data_lines = [] then
        sse_loop L on_status ending rest data_lines last_payload trace
      else if strip (join_newline data_lines) = [] then
        sse_loop L on_status ending rest [] last_payload trace
      else
        (case json_loads L (strip (join_newline data_lines)) of
           None \<Rightarrow> sse_loop L on_status ending rest [] last_payload trace
         | Some (JObj payload) \<Rightarrow>
             (case notify on_status payload trace of
                (trace', Some e) \<Rightarrow> (trace', Raised e)
              | (trace', None) \<Rightarrow>
                  if is_terminal (status_value L payload) then (trace', Returned payload)
                  else sse_loop L on_status ending rest [] (Some payload) trace')
         | Some _ \<Rightarrow> sse_loop L on_status ending rest [] last_payload trace))"

text \<open>The \<open>except\<close> clauses around the stream.\<close>

definition stream_handler :: "exn \<Rightarrow> exn" where
  "stream_handler e =
     (case e of
        GenvoyToolError code m \<Rightarrow> e
      | HTTPStatusError \<Rightarrow>
          GenvoyToolError ''SSE_UNAVAILABLE'' (Text ''SSE stream request failed'')
      | HTTPError \<Rightarrow>
          GenvoyToolError ''SSE_UNAVAILABLE'' (Text ''SSE stream unavailable'')
      | OtherException x \<Rightarrow> e)"

definition stream_job_status ::
  "pylib \<Rightarrow> callback \<Rightarrow> string \<Rightarrow> string \<Rightarrow> stream_conn \<Rightarrow> obj list \<times> (exn + obj)" where
  "stream_job_status L on_status model_id request_id conn =
     (case conn of
        ConnectFailed e \<Rightarrow> ([], Inl (stream_handler e))
      | Connected code lines ending \<Rightarrow>
          if code = 404 \<or> code = 405 \<or> code = 501 then
            ([], Inl (stream_handler
                        (GenvoyToolError ''SSE_UNAVAILABLE''
                           (Text (''SSE stream unavailable for '' @ model_id @ ''/''
                                  @ request_id @ ''.'')))))
          else if \<not> (200 \<le> code \<and> code \<le> 299) then
            ([], Inl (stream_handler HTTPStatusError))
          else
            (case sse_loop L on_status ending lines [] None [] of
               (trace, Returned payload) \<Rightarrow> (trace, Inr payload)
             | (trace, Raised e) \<Rightarrow> (trace, Inl (stream_handler e))
             | (trace, Exhausted last_payload) \<Rightarrow>
                 (case last_payload of
                    Some p \<Rightarrow>
                      if p \<noteq> [] \<and> is_terminal (status_value L p) then (trace, Inr p)
                      else (trace, Inl (GenvoyToolError ''SSE_UNAVAILABLE''
                                        (Text ''SSE stream ended without usable status events.'')))
                  | None \<Rightarrow>
                      (trace, Inl (GenvoyToolError ''SSE_UNAVAILABLE''
                                   (Text ''SSE stream ended without usable status events.''))))))"

subsection \<open>\<open>FalClient.wait_for_completion\<close>\<close>

text \<open>
  The polling loop. \<open>polls k\<close> is what the \<open>k\<close>-th call of \<open>get_job_status\<close> does;
  \<open>elapsed\<close> is the loop's own clock. The loop need not terminate (a poll interval of
  zero never advances the clock), so its result is an \<open>option\<close>.
\<close>

partial_function (option) poll_loop ::
  "pylib \<Rightarrow> callback \<Rightarrow> string \<Rightarrow> (nat \<Rightarrow> exn + obj) \<Rightarrow> rat \<Rightarrow> rat \<Rightarrow> nat \<Rightarrow> rat \<Rightarrow> obj list
     \<Rightarrow> (obj list \<times> (exn + obj)) option" where
  "poll_loop L on_status request_id polls timeout_seconds poll_interval_seconds k elapsed trace =
     (if elapsed < timeout_seconds then
        (case polls k of
           Inl e \<Rightarrow> Some (trace, Inl e)
         | Inr status \<Rightarrow>
             (case notify on_status status trace of
                (trace', Some e) \<Rightarrow> Some (trace', Inl e)
              | (trace', None) \<Rightarrow>
                  if status_value L status = ''COMPLETED'' then Some (trace', Inr status)
                  else if status_value L status = ''FAILED'' then
                    Some (trace', Inl (GenvoyToolError ''JOB_FAILED'' (JobPayload status)))
                  else
                    poll_loop L on_status request_id polls timeout_seconds poll_interval_seconds
                      (k + 1) (elapsed + poll_interval_seconds) trace'))
      else
        Some (trace, Inl (GenvoyToolError ''JOB_TIMEOUT''
                          (Text (''Job '' @ request_id @ '' timed out'')))))"

text \<open>
  The body of the \<open>try\<close>: \<open>Inr (Some terminal)\<close> is the \<open>return\<close>, \<open>Inr None\<close> is
  leaving the block without returning, \<open>Inl\<close> is an exception raised inside it.
\<close>

definition stream_attempt :: "pylib \<Rightarrow> exn + obj \<Rightarrow> exn + obj option" where
  "stream_attempt L streamed =
     (case streamed of
        Inl e \<Rightarrow> Inl e
      | Inr terminal \<Rightarrow>
          if status_value L terminal = ''COMPLETED'' then Inr (Some terminal)
          else if status_value L terminal = ''FAILED'' then
            Inl (GenvoyToolError ''JOB_FAILED'' (JobPayload terminal))
          else Inr None)"

definition wait_for_completion ::
  "pylib \<Rightarrow> callback \<Rightarrow> string \<Rightarrow> string \<Rightarrow> stream_conn \<Rightarrow> (nat \<Rightarrow> exn + obj) \<Rightarrow> rat \<Rightarrow> rat
     \<Rightarrow> (obj list \<times> (exn + obj)) option" where
  "wait_for_completion L on_status model_id request_id conn polls
       timeout_seconds poll_interval_seconds =
     (case stream_job_status L on_status model_id request_id conn of
        (trace, streamed) \<Rightarrow>
          (case stream_attempt L streamed of
             Inr (Some terminal) \<Rightarrow> Some (trace, Inr terminal)
           | Inr None \<Rightarrow>
               poll_loop L on_status request_id polls timeout_seconds poll_interval_seconds
                 0 0 trace
           | Inl (GenvoyToolError code m) \<Rightarrow>
               if code \<noteq> ''SSE_UNAVAILABLE'' then Some (trace, Inl (GenvoyToolError code m))
               else
                 poll_loop L on_status request_id polls timeout_seconds poll_interval_seconds
                   0 0 trace
           | Inl e \<Rightarrow> Some (trace, Inl e)))"

section \<open>Type detector (filesystem.py)\<close>

definition EXT_TO_MEDIA :: "(string \<times> string) list" where
  "EXT_TO_MEDIA =
     [(''.png'', ''image''), (''.jpg'', ''image''), (''.jpeg'', ''image''), (''.webp'', ''image''),
      (''.mp4'', ''video''), (''.mp3'', ''audio''), (''.wav'', ''audio''), (''.flac'', ''audio'')]"

definition CONTENT_TYPE_TO_EXT :: "(string \<times> string) list" where
  "CONTENT_TYPE_TO_EXT =
     [(''image/png'', ''.png''), (''image/jpeg'', ''.jpg''), (''image/webp'', ''.webp''),
      (''video/mp4'', ''.mp4''), (''audio/mpeg'', ''.mp3''), (''audio/wav'', ''.wav''),
      (''audio/x-wav'', ''.wav''), (''audio/flac'', ''.flac'')]"

definition media_of_ext :: "string \<Rightarrow> string" where
  "media_of_ext ext = (case map_of EXT_TO_MEDIA ext of None \<Rightarrow> ''unknown'' | Some m \<Rightarrow> m)"

definition detect_type_and_ext :: "pylib \<Rightarrow> string \<Rightarrow> string option \<Rightarrow> string \<times> string option" where
  "detect_type_and_ext L url content_type =
     (if media_of_ext (lower (url_path_suffix L url)) \<noteq> ''unknown'' then
        (media_of_ext (lower (url_path_suffix L url)), Some (lower (url_path_suffix L url)))
      else
        (case content_type of
           None \<Rightarrow> (''unknown'', None)
         | Some ct \<Rightarrow>
             if ct = [] then (''unknown'', None)
             else
               (case map_of CONTENT_TYPE_TO_EXT
                       (lower (strip (takeWhile (\<lambda>c. c \<noteq> CHR 0x3B) ct))) of
                  None \<Rightarrow> (''unknown'', None)
                | Some canonical_ext \<Rightarrow>
                    if canonical_ext = [] then (''unknown'', None)
                    else (media_of_ext canonical_ext, Some canonical_ext))))"

section \<open>Path resolver (filesystem.py)\<close>

text \<open>
  A \<open>pathlib.Path\<close> on POSIX: whether it is absolute, and its components. Parsing a
  string drops empty components and \<open>.\<close>, and keeps \<open>..\<close>.
\<close>

record pypath =
  is_absolute :: bool
  parts :: "string list"

fun split_slash :: "string \<Rightarrow> string list" where
  "split_slash [] = [[]]"
| "split_slash (c # cs) =
     (if c = CHR 0x2F then [] # split_slash cs
      else (case split_slash cs of
              [] \<Rightarrow> [[c]]
            | h # t \<Rightarrow> (c # h) # t))"

definition Path :: "string \<Rightarrow> pypath" where
  "Path s = \<lparr> is_absolute = startswith s ''/'',
             parts = filter (\<lambda>p. p \<noteq> [] \<and> p \<noteq> ''.'') (split_slash s) \<rparr>"

text \<open>
  \<open>Path.resolve()\<close> on a filesystem without symbolic links: \<open>..\<close> removes the
  component before it (and stays at the root), \<open>.\<close> and empty components vanish.
\<close>

fun resolve_from :: "string list \<Rightarrow> string list \<Rightarrow> string list" where
  "resolve_from acc [] = acc"
| "resolve_from acc (c # cs) =
     (if c = ''..'' then resolve_from (butlast acc) cs
      else if c = ''.'' \<or> c = [] then resolve_from acc cs
      else resolve_from (acc @ [c]) cs)"

definition resolve :: "string list \<Rightarrow> string list" where
  "resolve p = resolve_from [] p"

text \<open>\<open>_is_within\<close>: \<open>path.relative_to(root)\<close> succeeds when \<open>root\<close> is a prefix.\<close>

definition is_within :: "string list \<Rightarrow> string list \<Rightarrow> bool" where
  "is_within path base = (take (length base) path = base)"

definition PATH_TRAVERSAL_BLOCKED :: exn where
  "PATH_TRAVERSAL_BLOCKED =
     GenvoyToolError ''PATH_TRAVERSAL_BLOCKED''
       (Text ''Resolved path is outside working directory.'')"

definition ensure_safe_path :: "string list \<Rightarrow> string list \<Rightarrow> exn + string list" where
  "ensure_safe_path path cwd =
     (if \<not> is_within (resolve path) (resolve cwd) then Inl PATH_TRAVERSAL_BLOCKED
      else Inr (resolve path))"

text \<open>
  The filesystem: the directories and the regular files that exist, each an absolute path
  without \<open>..\<close>, and the directories in which the process may not create an entry.
  There are no symbolic links.
\<close>

record filesystem =
  dirs :: "string list set"
  files :: "string list set"
  protected :: "string list set"

definition path_exists :: "filesystem \<Rightarrow> string list \<Rightarrow> bool" where
  "path_exists fs p = (resolve p \<in> dirs fs \<union> files fs)"

text \<open>The subclasses of \<open>OSError\<close> that \<open>mkdir\<close> and \<open>copy2\<close> raise.\<close>

definition FileNotFoundError :: exn where
  "FileNotFoundError = OtherException ''FileNotFoundError''"

definition FileExistsError :: exn where
  "FileExistsError = OtherException ''FileExistsError''"

definition NotADirectoryError :: exn where
  "NotADirectoryError = OtherException ''NotADirectoryError''"

definition PermissionError :: exn where
  "PermissionError = OtherException ''PermissionError''"

text \<open>
  How the operating system follows the components of a path from the directory \<open>cur\<close>:
  \<open>..\<close> goes to the parent, and every other component must be a directory that exists.
\<close>

fun walk :: "filesystem \<Rightarrow> string list \<Rightarrow> string list \<Rightarrow> exn + string list" where
  "walk fs cur [] = Inr cur"
| "walk fs cur (c # cs) =
     (if c = ''..'' then walk fs (butlast cur) cs
      else if c = ''.'' \<or> c = [] then walk fs cur cs
      else if cur @ [c] \<in> dirs fs then walk fs (cur @ [c]) cs
      else if cur @ [c] \<in> files fs then Inl NotADirectoryError
      else Inl FileNotFoundError)"

text \<open>\<open>Path.is_dir()\<close>: an error of the lookup gives \<open>False\<close>.\<close>

definition is_dir :: "filesystem \<Rightarrow> string list \<Rightarrow> bool" where
  "is_dir fs p = (case walk fs [] p of Inl e \<Rightarrow> False | Inr d \<Rightarrow> True)"

text \<open>
  \<open>os.mkdir(path)\<close>: the parent must be reached; a path that exists (also the root, and
  a path that ends in \<open>..\<close>) gives \<open>FileExistsError\<close>; a parent in which the process may
  not write gives \<open>PermissionError\<close>; otherwise the directory is created.
\<close>

definition os_mkdir :: "filesystem \<Rightarrow> string list \<Rightarrow> exn + filesystem" where
  "os_mkdir fs p =
     (case rev p of
        [] \<Rightarrow> Inl FileExistsError
      | name # rev_parent \<Rightarrow>
          (case walk fs [] (rev rev_parent) of
             Inl e \<Rightarrow> Inl e
           | Inr d \<Rightarrow>
               if name = ''..'' \<or> name = ''.'' \<or> name = [] then Inl FileExistsError
               else if d @ [name] \<in> dirs fs \<union> files fs then Inl FileExistsError
               else if d \<in> protected fs then Inl PermissionError
               else Inr (fs\<lparr> dirs := insert (d @ [name]) (dirs fs) \<rparr>)))"

text \<open>
  \<open>Path.mkdir\<close> of pathlib, which returns the exception it raises, if any, and the
  filesystem it leaves. \<open>mkdir_here\<close> is the call with \<open>parents=False, exist_ok=True\<close>,
  \<open>path_mkdir\<close> the call with \<open>parents=True, exist_ok=True\<close>: on \<open>FileNotFoundError\<close> it
  makes the lexical parent first and then the path itself; any other error is passed over
  when the path is a directory, and raised otherwise.
\<close>

definition mkdir_here :: "filesystem \<Rightarrow> string list \<Rightarrow> exn option \<times> filesystem" where
  "mkdir_here fs p =
     (case os_mkdir fs p of
        Inr created \<Rightarrow> (None, created)
      | Inl e \<Rightarrow>
          if e = FileNotFoundError then (Some e, fs)
          else if is_dir fs p then (None, fs)
          else (Some e, fs))"

function path_mkdir :: "filesystem \<Rightarrow> string list \<Rightarrow> exn option \<times> filesystem" where
  "path_mkdir fs p =
     (case os_mkdir fs p of
        Inr created \<Rightarrow> (None, created)
      | Inl e \<Rightarrow>
          if e = FileNotFoundError then
            (if p = [] then (Some e, fs)
             else (case path_mkdir fs (butlast p) of
                     (Some e', fs1) \<Rightarrow> (Some e', fs1)
                   | (None, fs1) \<Rightarrow> mkdir_here fs1 p))
          else if is_dir fs p then (None, fs)
          else (Some e, fs))"
  by pat_completeness auto
termination
  by (relation "measure (\<lambda>(fs, p). length p)") auto

text \<open>\<open>name\<close>, \<open>suffix\<close>, \<open>stem\<close> and \<open>with_suffix\<close> of pathlib.\<close>

definition path_name :: "string list \<Rightarrow> string" where
  "path_name p = (case rev p of [] \<Rightarrow> [] | n # _ \<Rightarrow> n)"

definition rfind_dot :: "string \<Rightarrow> nat option" where
  "rfind_dot name =
     (if CHR 0x2E \<in> set name
      then Some (length name - 1 - length (takeWhile (\<lambda>c. c \<noteq> CHR 0x2E) (rev name)))
      else None)"

definition name_suffix :: "string \<Rightarrow> string" where
  "name_suffix name =
     (case rfind_dot name of
        None \<Rightarrow> []
      | Some i \<Rightarrow> if 0 < i \<and> i + 1 < length name then drop i name else [])"

definition path_suffix :: "string list \<Rightarrow> string" where
  "path_suffix p = name_suffix (path_name p)"

definition path_stem :: "string list \<Rightarrow> string" where
  "path_stem p = take (length (path_name p) - length (path_suffix p)) (path_name p)"

definition with_suffix :: "string list \<Rightarrow> string \<Rightarrow> exn + string list" where
  "with_suffix p ext =
     (if path_name p = [] then Inl (OtherException ''ValueError'')
      else if \<not> startswith ext ''.'' \<or> ext = ''.'' \<or> CHR 0x2F \<in> set ext then
        Inl (OtherException ''ValueError'')
      else Inr (butlast p @ [path_stem p @ ext]))"

text \<open>
  \<open>unique_path\<close>: the \<open>while True\<close> loop from \<open>idx\<close> on. It ends when a free name is
  found, so its result is an \<open>option\<close>.
\<close>

partial_function (option) unique_from ::
  "filesystem \<Rightarrow> string list \<Rightarrow> string \<Rightarrow> string \<Rightarrow> nat \<Rightarrow> string list option" where
  "unique_from fs parent stem suffix idx =
     (if \<not> path_exists fs (parent @ [stem @ ''_'' @ string_of_nat idx @ suffix])
      then Some (parent @ [stem @ ''_'' @ string_of_nat idx @ suffix])
      else unique_from fs parent stem suffix (idx + 1))"

definition unique_path :: "filesystem \<Rightarrow> string list \<Rightarrow> string list option" where
  "unique_path fs path =
     (if \<not> path_exists fs path then Some path
      else unique_from fs (butlast path) (path_stem path) (path_suffix path) 1)"

text \<open>
  \<open>resolve_output_path\<close> and \<open>copy_to_repo\<close> return what the call gives (an exception
  or a path; \<open>None\<close> if \<open>unique_path\<close> does not end) and the filesystem after it.
  \<open>cwd\<close> is \<open>Path.cwd()\<close>. The parent directories are made first; an exception of
  \<open>mkdir\<close> ends the call.
\<close>

definition resolve_output_path ::
  "filesystem \<Rightarrow> string list \<Rightarrow> pypath \<Rightarrow> string option
     \<Rightarrow> (exn + string list) option \<times> filesystem" where
  "resolve_output_path fs cwd output_path preferred_ext =
     (let raw = (if is_absolute output_path then parts output_path
                 else cwd @ parts output_path)
      in case path_mkdir fs (butlast raw) of
           (Some e, fs1) \<Rightarrow> (Some (Inl e), fs1)
         | (None, fs1) \<Rightarrow>
             (case ensure_safe_path raw cwd of
                Inl e \<Rightarrow> (Some (Inl e), fs1)
              | Inr safe \<Rightarrow>
                  (case preferred_ext of
                     None \<Rightarrow> (map_option Inr (unique_path fs1 safe), fs1)
                   | Some ext \<Rightarrow>
                       if path_suffix safe = [] \<and> ext \<noteq> [] then
                         (case with_suffix safe ext of
                            Inl e \<Rightarrow> (Some (Inl e), fs1)
                          | Inr renamed \<Rightarrow> (map_option Inr (unique_path fs1 renamed), fs1))
                       else (map_option Inr (unique_path fs1 safe), fs1))))"

definition copy_to_repo ::
  "filesystem \<Rightarrow> string list \<Rightarrow> string list \<Rightarrow> pypath
     \<Rightarrow> (exn + string list) option \<times> filesystem" where
  "copy_to_repo fs cwd src dst =
     (let target = (if is_absolute dst then parts dst else cwd @ parts dst)
      in case path_mkdir fs (butlast target) of
           (Some e, fs1) \<Rightarrow> (Some (Inl e), fs1)
         | (None, fs1) \<Rightarrow>
             (case ensure_safe_path target cwd of
                Inl e \<Rightarrow> (Some (Inl e), fs1)
              | Inr safe \<Rightarrow>
                  (case unique_path fs1 safe of
                     None \<Rightarrow> (None, fs1)
                   | Some free \<Rightarrow>
                       if \<not> path_exists fs1 src then (Some (Inl FileNotFoundError), fs1)
                       else (Some (Inr free), fs1\<lparr> files := insert free (files fs1) \<rparr>))))"

section \<open>Result extraction and progress (server.py)\<close>

subsection \<open>\<open>_extract_first_media_url\<close>\<close>

definition is_media :: "string \<Rightarrow> bool" where
  "is_media media_type =
     (media_type = ''image'' \<or> media_type = ''video'' \<or> media_type = ''audio'')"

text \<open>The end of the function: nothing found, the first recognised URL, or the first URL.\<close>

definition select_url :: "pylib \<Rightarrow> string list \<Rightarrow> string option" where
  "select_url L urls =
     (case urls of
        [] \<Rightarrow> None
      | first # _ \<Rightarrow>
          (case find (\<lambda>candidate. is_media (fst (detect_type_and_ext L candidate None))) urls of
             Some candidate \<Rightarrow> Some candidate
           | None \<Rightarrow> Some first))"

text \<open>\<open>if found: urls.append(found)\<close>.\<close>

definition found_urls :: "string option \<Rightarrow> string list" where
  "found_urls found = (case found of None \<Rightarrow> [] | Some u \<Rightarrow> if u = [] then [] else [u])"

definition PREFERRED_KEYS :: "string list" where
  "PREFERRED_KEYS =
     [''images'', ''videos'', ''audio'', ''url'', ''image'', ''video'', ''result'', ''output'']"

text \<open>
  \<open>extract_key\<close> is \<open>if preferred in payload: found = ...(payload[preferred])\<close> for one
  key, \<open>extract_values\<close> the loop over \<open>payload.values()\<close>, \<open>extract_items\<close> the loop
  over a list.
\<close>

fun extract_first_media_url :: "pylib \<Rightarrow> json \<Rightarrow> string option"
  and extract_items :: "pylib \<Rightarrow> json list \<Rightarrow> string list"
  and extract_values :: "pylib \<Rightarrow> (string \<times> json) list \<Rightarrow> string list"
  and extract_key :: "pylib \<Rightarrow> string \<Rightarrow> (string \<times> json) list \<Rightarrow> string list" where
  "extract_first_media_url L (JStr s) =
     select_url L (if startswith s ''http://'' \<or> startswith s ''https://'' then [s] else [])"
| "extract_first_media_url L (JObj kvs) =
     select_url L
       (extract_key L ''images'' kvs @ extract_key L ''videos'' kvs @ extract_key L ''audio'' kvs
        @ extract_key L ''url'' kvs @ extract_key L ''image'' kvs @ extract_key L ''video'' kvs
        @ extract_key L ''result'' kvs @ extract_key L ''output'' kvs
        @ extract_values L kvs)"
| "extract_first_media_url L (JArr xs) = select_url L (extract_items L xs)"
| "extract_first_media_url L JNull = select_url L []"
| "extract_first_media_url L (JBool b) = select_url L []"
| "extract_first_media_url L (JInt i) = select_url L []"
| "extract_first_media_url L (JFloat f) = select_url L []"
| "extract_items L [] = []"
| "extract_items L (x # xs) = found_urls (extract_first_media_url L x) @ extract_items L xs"
| "extract_values L [] = []"
| "extract_values L ((k, v) # kvs) =
     found_urls (extract_first_media_url L v) @ extract_values L kvs"
| "extract_key L key [] = []"
| "extract_key L key ((k, v) # kvs) =
     (if k = key then found_urls (extract_first_media_url L v) else extract_key L key kvs)"

subsection \<open>\<open>_status_from_payload\<close> and \<open>_progress_from_payload\<close>\<close>






subsection \<open>\<open>_get_nested\<close>, \<open>_extract_cost_usd\<close>, \<open>_extract_duration_ms\<close>\<close>

fun get_nested :: "json \<Rightarrow> string list \<Rightarrow> json" where
  "get_nested cursor [] = cursor"
| "get_nested cursor (key # path) =
     (case cursor of
        JObj d \<Rightarrow> (case map_of d key of None \<Rightarrow> JNull | Some v \<Rightarrow> get_nested v path)
      | _ \<Rightarrow> JNull)"

text \<open>
  \<open>re.search(r"-?\d+(?:\.\d+)?", raw)\<close>: the leftmost match, with greedy digits, and the
  value \<open>float\<close> gives to the matched text.
\<close>

definition match_unsigned :: "string \<Rightarrow> string option" where
  "match_unsigned s =
     (if takeWhile is_digit s = [] then None
      else Some (takeWhile is_digit s
                 @ (case dropWhile is_digit s of
                      [] \<Rightarrow> []
                    | d # t \<Rightarrow>
                        if d = CHR 0x2E \<and> takeWhile is_digit t \<noteq> []
                        then d # takeWhile is_digit t else [])))"

definition match_number_at :: "string \<Rightarrow> string option" where
  "match_number_at s =
     (case s of
        [] \<Rightarrow> None
      | c # t \<Rightarrow>
          if c = CHR 0x2D then
            (case match_unsigned t of None \<Rightarrow> None | Some m \<Rightarrow> Some (c # m))
          else match_unsigned s)"

fun re_search_number :: "string \<Rightarrow> string option" where
  "re_search_number [] = None"
| "re_search_number (c # cs) =
     (case match_number_at (c # cs) of
        Some m \<Rightarrow> Some m
      | None \<Rightarrow> re_search_number cs)"

definition unsigned_value :: "string \<Rightarrow> rat" where
  "unsigned_value u =
     of_nat (nat_of_digits 0 (takeWhile is_digit u))
     + of_nat (nat_of_digits 0 (drop (length (takeWhile is_digit u) + 1) u))
       / 10 ^ length (drop (length (takeWhile is_digit u) + 1) u)"

definition decimal_value :: "string \<Rightarrow> rat" where
  "decimal_value m =
     (case m of
        [] \<Rightarrow> 0
      | c # u \<Rightarrow> if c = CHR 0x2D then - unsigned_value u else unsigned_value m)"

definition COST_PATHS :: "string list list" where
  "COST_PATHS =
     [[''cost_usd''], [''cost''], [''usage'', ''cost_usd''], [''usage'', ''cost''],
      [''usage'', ''total_cost''], [''metrics'', ''cost'']]"


definition payload_sources :: "obj \<Rightarrow> json list" where
  "payload_sources payload =
     JObj payload # (case dict_get payload ''data'' of JObj d \<Rightarrow> [JObj d] | _ \<Rightarrow> [])"

text \<open>
  One round of the inner loop of \<open>_extract_cost_usd\<close> on the value \<open>raw\<close> found at a
  path: \<open>Some\<close> is the \<open>return\<close>, \<open>None\<close> is going on with the next path.
\<close>

definition cost_of_raw :: "json \<Rightarrow> rat option" where
  "cost_of_raw raw =
     (case raw of
        JNull \<Rightarrow> None
      | JBool b \<Rightarrow> Some (if b then 1 else 0)
      | JInt i \<Rightarrow> Some (of_int i)
      | JFloat f \<Rightarrow> Some f
      | JStr s \<Rightarrow>
          (case re_search_number s of None \<Rightarrow> None | Some m \<Rightarrow> Some (decimal_value m))
      | JArr xs \<Rightarrow> None
      | JObj kvs \<Rightarrow> None)"

fun cost_scan_paths :: "json \<Rightarrow> string list list \<Rightarrow> rat option" where
  "cost_scan_paths source [] = None"
| "cost_scan_paths source (path # paths) =
     (case cost_of_raw (get_nested source path) of
        Some v \<Rightarrow> Some v
      | None \<Rightarrow> cost_scan_paths source paths)"

fun cost_scan_sources :: "json list \<Rightarrow> rat option" where
  "cost_scan_sources [] = None"
| "cost_scan_sources (source # sources) =
     (case cost_scan_paths source COST_PATHS of
        Some v \<Rightarrow> Some v
      | None \<Rightarrow> cost_scan_sources sources)"

definition extract_cost_usd :: "obj \<Rightarrow> rat option" where
  "extract_cost_usd payload = cost_scan_sources (payload_sources payload)"






text \<open>
  In \<open>_generate_once\<close>: \<open>_extract_cost_usd(result_payload) or
  _extract_cost_usd(terminal_status)\<close>, and the same for the duration. Python's \<open>or\<close>
  takes the right operand when the left one is \<open>None\<close> or zero.
\<close>

definition or_number :: "'a::zero option \<Rightarrow> 'a option \<Rightarrow> 'a option" where
  "or_number a b = (case a of None \<Rightarrow> b | Some v \<Rightarrow> if v = 0 then b else Some v)"

definition generation_cost_usd :: "obj \<Rightarrow> obj \<Rightarrow> rat option" where
  "generation_cost_usd result_payload terminal_status =
     or_number (extract_cost_usd result_payload) (extract_cost_usd terminal_status)"


section \<open>Batch and compare fan-out (server.py)\<close>

text \<open>
  \<open>asyncio.gather(*tasks, return_exceptions=True)\<close> yields one entry per task, in task
  order: the task's result or the exception it raised. The aggregation loops of
  \<open>generate_batch\<close> and \<open>generate_compare\<close> run over that list. The pipeline of the
  task at position \<open>idx\<close> is the parameter \<open>run\<close> (\<open>_generate_once\<close> with that task's
  arguments); \<open>str_exn\<close> is Python's \<open>str\<close> on an exception.
\<close>

text \<open>\<open>for idx, item in enumerate(results)\<close> of \<open>generate_batch\<close>, from index \<open>idx\<close> on.\<close>

fun batch_collect ::
  "(exn \<Rightarrow> string) \<Rightarrow> nat \<Rightarrow> (exn + 'r) list \<Rightarrow> 'r list \<times> (nat \<times> string) list" where
  "batch_collect str_exn idx [] = ([], [])"
| "batch_collect str_exn idx (item # items) =
     (case batch_collect str_exn (idx + 1) items of (fs, failed) \<Rightarrow>
        (case item of
           Inl e \<Rightarrow> (fs, (idx + 1, str_exn e) # failed)
         | Inr r \<Rightarrow> (r # fs, failed)))"

definition generate_batch ::
  "(exn \<Rightarrow> string) \<Rightarrow> (nat \<Rightarrow> exn + 'r) \<Rightarrow> nat \<Rightarrow> 'r list \<times> (nat \<times> string) list" where
  "generate_batch str_exn run count = batch_collect str_exn 0 (map run [0..<count])"

text \<open>\<open>for model_id, item in zip(data.model_ids, results)\<close> of \<open>generate_compare\<close>.\<close>

fun compare_collect ::
  "(exn \<Rightarrow> string) \<Rightarrow> (string \<times> (exn + 'r)) list \<Rightarrow> 'r list \<times> (string \<times> string) list" where
  "compare_collect str_exn [] = ([], [])"
| "compare_collect str_exn ((model_id, item) # rest) =
     (case compare_collect str_exn rest of (fs, failed) \<Rightarrow>
        (case item of
           Inl e \<Rightarrow> (fs, (model_id, str_exn e) # failed)
         | Inr r \<Rightarrow> (r # fs, failed)))"

definition generate_compare ::
  "(exn \<Rightarrow> string) \<Rightarrow> (nat \<Rightarrow> string \<Rightarrow> exn + 'r) \<Rightarrow> string list
     \<Rightarrow> 'r list \<times> (string \<times> string) list" where
  "generate_compare str_exn run model_ids =
     compare_collect str_exn
       (zip model_ids (map (\<lambda>idx. run idx (model_ids ! idx)) [0..<length model_ids]))"

section \<open>Notions used in the statements\<close>


text \<open>
  The candidate URLs of a payload in traversal order: a string with an http or https
  scheme is a candidate; in an object the values of the preferred keys come first, in
  the fixed order of the keys, then the values of the remaining keys in the order of the
  object; a list is traversed in order. \<open>unique_keys\<close> says that no object of a value has
  a key twice, as in every Python \<open>dict\<close>. A candidate is \<open>recognised\<close> when the type
  detector, given the URL alone, finds an image, a video or an audio file.
\<close>

fun candidate_urls :: "json \<Rightarrow> string list"
  and candidate_items :: "json list \<Rightarrow> string list"
  and candidate_key :: "string \<Rightarrow> (string \<times> json) list \<Rightarrow> string list"
  and candidate_rest :: "(string \<times> json) list \<Rightarrow> string list" where
  "candidate_urls (JStr s) =
     (if startswith s ''http://'' \<or> startswith s ''https://'' then [s] else [])"
| "candidate_urls (JObj kvs) =
     concat (map (\<lambda>key. candidate_key key kvs) PREFERRED_KEYS) @ candidate_rest kvs"
| "candidate_urls (JArr xs) = candidate_items xs"
| "candidate_urls JNull = []"
| "candidate_urls (JBool b) = []"
| "candidate_urls (JInt i) = []"
| "candidate_urls (JFloat f) = []"
| "candidate_items [] = []"
| "candidate_items (x # xs) = candidate_urls x @ candidate_items xs"
| "candidate_key key [] = []"
| "candidate_key key ((k, v) # kvs) =
     (if k = key then candidate_urls v else candidate_key key kvs)"
| "candidate_rest [] = []"
| "candidate_rest ((k, v) # kvs) =
     (if k \<in> set PREFERRED_KEYS then [] else candidate_urls v) @ candidate_rest kvs"

fun unique_keys :: "json \<Rightarrow> bool"
  and unique_keys_items :: "json list \<Rightarrow> bool"
  and unique_keys_fields :: "(string \<times> json) list \<Rightarrow> bool" where
  "unique_keys (JObj kvs) = (distinct (map fst kvs) \<and> unique_keys_fields kvs)"
| "unique_keys (JArr xs) = unique_keys_items xs"
| "unique_keys (JStr s) = True"
| "unique_keys JNull = True"
| "unique_keys (JBool b) = True"
| "unique_keys (JInt i) = True"
| "unique_keys (JFloat f) = True"
| "unique_keys_items [] = True"
| "unique_keys_items (x # xs) = (unique_keys x \<and> unique_keys_items xs)"
| "unique_keys_fields [] = True"
| "unique_keys_fields ((k, v) # kvs) = (unique_keys v \<and> unique_keys_fields kvs)"


definition recognised :: "pylib \<Rightarrow> string \<Rightarrow> bool" where
  "recognised L candidate = is_media (fst (detect_type_and_ext L candidate None))"


text \<open>
  The data payloads of the lines of one frame; the exceptions that stand for a failure of
  the transport; the stable code of an exception, as \<open>getattr(exc, "code", None)\<close> reads
  it.
\<close>

definition frame_data :: "string list \<Rightarrow> string list" where
  "frame_data frame = map (\<lambda>l. lstrip (drop 5 l)) (filter (\<lambda>l. startswith l ''data:'') frame)"



definition error_code :: "exn \<Rightarrow> string option" where
  "error_code e = (case e of GenvoyToolError code m \<Rightarrow> Some code | _ \<Rightarrow> None)"



section \<open>Example inputs\<close>

text \<open>Concrete inputs on which the theorems below are instantiated.\<close>

definition demo_run :: "nat \<Rightarrow> exn + string" where
  "demo_run =
     (\<lambda>j. if j = 1 then Inl (GenvoyToolError ''JOB_FAILED'' (Text ''forced failure''))
      else Inr ''file'')"

definition demo_compare_run :: "nat \<Rightarrow> string \<Rightarrow> exn + string" where
  "demo_compare_run =
     (\<lambda>idx model_id. if model_id = ''fal-ai/bad/model''
      then Inl (GenvoyToolError ''JOB_FAILED'' (Text ''forced failure''))
      else Inr ''file'')"

definition demo_str :: "exn \<Rightarrow> string" where
  "demo_str = (\<lambda>e. case e of GenvoyToolError code m \<Rightarrow> code | _ \<Rightarrow> ''error'')"

definition demo_loads :: "string \<Rightarrow> json option" where
  \<open>demo_loads =
     (\<lambda>s. if s = ''{"status":"IN_PROGRESS","progress":15}'' then
              Some (JObj [(''status'', JStr ''IN_PROGRESS''), (''progress'', JInt 15)])
            else if s = ''{"status":"COMPLETED","progress":100}'' then
              Some (JObj [(''status'', JStr ''COMPLETED''), (''progress'', JInt 100)])
            else if s = ''{"status":"FAILED"}'' then
              Some (JObj [(''status'', JStr ''FAILED'')])
            else if s = ''{"request_id":"req-1"}'' then
              Some (JObj [(''request_id'', JStr ''req-1'')])
            else if s = ''[1]'' then Some (JArr [JInt 1])
            else None)\<close>

definition demo_lib :: pylib where
  "demo_lib = \<lparr> json_loads = demo_loads,
                 str_of = (\<lambda>v. ''<value>''),
                 float_of_str = (\<lambda>s. if s = ''50'' then Some 50 else None),
                 url_path_suffix = (\<lambda>url. name_suffix (path_name (split_slash url))) \<rparr>"

definition demo_response :: "nat \<Rightarrow> string \<Rightarrow> response" where
  "demo_response =
     (\<lambda>code body. \<lparr> status_code = code, headers = (\<lambda>h. None), content = body \<rparr>)"







definition demo_media :: json where
  "demo_media =
     JObj [(''logs'', JStr ''https://fal.media/logs/run-1''),
           (''meta'', JObj [(''page'', JStr ''https://fal.ai/models'')]),
           (''images'', JArr [JObj [(''url'', JStr ''https://cdn.fal.ai/out/hero.png'')]])]"


definition demo_callback :: callback where
  "demo_callback = Some (\<lambda>payload. None)"

definition demo_completed_frame :: "string list" where
  \<open>demo_completed_frame = [''data: {"status":"COMPLETED","progress":100}'', '''']\<close>

definition demo_failed_frame :: "string list" where
  \<open>demo_failed_frame = [''data: {"status":"FAILED"}'', '''']\<close>

definition demo_completed_payload :: obj where
  "demo_completed_payload = [(''status'', JStr ''COMPLETED''), (''progress'', JInt 100)]"

definition demo_polls :: "nat \<Rightarrow> exn + obj" where
  "demo_polls =
     (\<lambda>k. if k = 0 then Inr [(''status'', JStr ''IN_PROGRESS''), (''progress'', JInt 25)]
          else Inr demo_completed_payload)"


definition demo_raising_callback :: callback where
  "demo_raising_callback = Some (\<lambda>payload. Some (OtherException ''boom''))"


section \<open>Verified properties\<close>

subsection \<open>Batch and compare fan-out\<close>

lemma batch_collect_all_ok:
  "\<forall>x \<in> set items. \<not> isl x \<Longrightarrow> batch_collect s idx items = (map projr items, [])"
  by (induction items arbitrary: idx) (auto split: sum.splits prod.splits)

lemma batch_collect_append:
  "batch_collect s idx (xs @ ys) =
     (fst (batch_collect s idx xs) @ fst (batch_collect s (idx + length xs) ys),
      snd (batch_collect s idx xs) @ snd (batch_collect s (idx + length xs) ys))"
  by (induction xs arbitrary: idx) (auto split: sum.splits prod.splits)

lemma compare_collect_all_ok:
  "\<forall>x \<in> set items. \<not> isl (snd x) \<Longrightarrow>
     compare_collect s items = (map (projr \<circ> snd) items, [])"
  by (induction items) (auto split: sum.splits prod.splits)

lemma compare_collect_append:
  "compare_collect s (xs @ ys) =
     (fst (compare_collect s xs) @ fst (compare_collect s ys),
      snd (compare_collect s xs) @ snd (compare_collect s ys))"
  by (induction xs) (auto split: sum.splits prod.splits)

lemma compare_collect_failed:
  "snd (compare_collect s zs) = map (\<lambda>(m, x). (m, s (projl x))) (filter (isl \<circ> snd) zs)"
  by (induction zs) (auto split: sum.splits prod.splits)

lemma upt_split_at: "i < n \<Longrightarrow> [0..<n] = [0..<i] @ [i] @ [Suc i..<n]"
  by (metis append_Cons append_Nil le_add1 less_imp_add_positive upt_add_eq_append
      upt_conv_Cons plus_nat.add_0 less_or_eq_imp_le upt_rec)

text \<open>
  Claim C8. In a batch of \<open>count\<close> items in which exactly the item at position \<open>i\<close>
  fails, every item is run, the result holds the \<open>count - 1\<close> files of the other items in
  their order, and one failed entry with the 1-based index \<open>i + 1\<close> and the text of the
  error. In a compare fan-out the failed entries are the failing tasks, in order, each
  with the model identifier of its task.
\<close>

theorem batch_single_failure:
  assumes "i < count"
    and "run i = Inl e"
    and "\<forall>j < count. j \<noteq> i \<longrightarrow> \<not> isl (run j)"
  shows "generate_batch s run count =
           (map (\<lambda>j. projr (run j)) ([0..<i] @ [Suc i..<count]), [(i + 1, s e)])
         \<and> length (fst (generate_batch s run count)) = count - 1
         \<and> snd (generate_compare s crun model_ids) =
             map (\<lambda>(m, x). (m, s (projl x)))
               (filter (isl \<circ> snd)
                  (zip model_ids
                     (map (\<lambda>idx. crun idx (model_ids ! idx)) [0..<length model_ids])))"
proof -
  have split: "map run [0..<count] = map run [0..<i] @ [Inl e] @ map run [Suc i..<count]"
    using assms(1,2) by (simp add: upt_split_at [of i count])
  have ok1: "\<forall>x \<in> set (map run [0..<i]). \<not> isl x"
    using assms(1,3) by auto
  have ok2: "\<forall>x \<in> set (map run [Suc i..<count]). \<not> isl x"
    using assms(3) by auto
  have b: "generate_batch s run count =
           (map (\<lambda>j. projr (run j)) ([0..<i] @ [Suc i..<count]), [(i + 1, s e)])"
    unfolding generate_batch_def split
    by (simp add: batch_collect_append batch_collect_all_ok [OF ok1]
          batch_collect_all_ok [OF ok2] comp_def)
  have l: "length (fst (generate_batch s run count)) = count - 1"
    using assms(1) by (simp add: b)
  show ?thesis
    using b l by (simp add: generate_compare_def compare_collect_failed)
qed

theorem batch_single_failure_witness:
  "generate_batch demo_str demo_run 3 = ([''file'', ''file''], [(2, ''JOB_FAILED'')])
   \<and> length (fst (generate_batch demo_str demo_run 3)) = 2
   \<and> snd (generate_compare demo_str demo_compare_run
            [''fal-ai/good/model'', ''fal-ai/bad/model''])
      = [(''fal-ai/bad/model'', ''JOB_FAILED'')]"
proof -
  have h1: "(1::nat) < 3" by simp
  have h2: "demo_run 1 = Inl (GenvoyToolError ''JOB_FAILED'' (Text ''forced failure''))"
    by (simp add: demo_run_def)
  have h3: "\<forall>j < 3. j \<noteq> 1 \<longrightarrow> \<not> isl (demo_run j)"
    by (simp add: demo_run_def)
  show ?thesis
    using batch_single_failure [OF h1 h2 h3, of demo_str demo_compare_run
        "[''fal-ai/good/model'', ''fal-ai/bad/model'']"]
    by (simp add: demo_run_def demo_str_def demo_compare_run_def upt_rec)
qed


subsection \<open>Responses of the queue API\<close>

lemma request_success:
  assumes "is_success r"
  shows "request L url (Inr r) =
           (if content r = [] then Inr (JObj [])
            else (case json_loads L (content r) of
                    None \<Rightarrow> Inl (GenvoyToolError ''INVALID_RESPONSE''
                                   (Text ''fal.ai returned non-JSON payload.''))
                  | Some v \<Rightarrow> Inr v))"
  using assms by (simp add: request_def is_success_def)

text \<open>
  Claim C9, as amended. On a 2xx response each of the four queue calls (submit, status,
  result, cancel) fails with \<open>INVALID_RESPONSE\<close> when the body is not empty and does not
  parse as JSON, and returns the parsed value when it does; an empty body is not an
  error: the call returns the empty object.
\<close>

theorem queue_calls_on_success:
  assumes "is_success r"
  shows "submit_job L model_id (Inr r) =
           (if content r = [] then Inr (JObj [])
            else (case json_loads L (content r) of
                    None \<Rightarrow> Inl (GenvoyToolError ''INVALID_RESPONSE''
                                   (Text ''fal.ai returned non-JSON payload.''))
                  | Some v \<Rightarrow> Inr v))
         \<and> get_job_status L model_id request_id (Inr r) = submit_job L model_id (Inr r)
         \<and> get_job_result L model_id request_id (Inr r) = submit_job L model_id (Inr r)
         \<and> cancel_job L model_id request_id (Inr r) = submit_job L model_id (Inr r)"
  by (simp add: submit_job_def get_job_status_def get_job_result_def cancel_job_def
        request_success [OF assms])

theorem queue_calls_on_success_witness:
  "submit_job demo_lib ''fal-ai/flux/dev'' (Inr (demo_response 200 ''not-json''))
     = Inl (GenvoyToolError ''INVALID_RESPONSE'' (Text ''fal.ai returned non-JSON payload.''))
   \<and> get_job_status demo_lib ''fal-ai/flux/dev'' ''req-1'' (Inr (demo_response 200 ''not-json''))
     = Inl (GenvoyToolError ''INVALID_RESPONSE'' (Text ''fal.ai returned non-JSON payload.''))
   \<and> get_job_result demo_lib ''fal-ai/flux/dev'' ''req-1'' (Inr (demo_response 200 ''not-json''))
     = Inl (GenvoyToolError ''INVALID_RESPONSE'' (Text ''fal.ai returned non-JSON payload.''))
   \<and> cancel_job demo_lib ''fal-ai/flux/dev'' ''req-1'' (Inr (demo_response 200 ''not-json''))
     = Inl (GenvoyToolError ''INVALID_RESPONSE'' (Text ''fal.ai returned non-JSON payload.''))"
proof -
  have h: "is_success (demo_response 200 ''not-json'')"
    by (simp add: is_success_def demo_response_def)
  show ?thesis
    using queue_calls_on_success [OF h, of demo_lib "''fal-ai/flux/dev''" "''req-1''"]
    by (simp add: demo_response_def demo_lib_def demo_loads_def)
qed

text \<open>
  A 200 response with an empty body: every queue call returns the empty object instead
  of failing.
\<close>

theorem empty_body_counterexample:
  "submit_job demo_lib ''fal-ai/flux/dev'' (Inr (demo_response 200 [])) = Inr (JObj [])
   \<and> get_job_status demo_lib ''fal-ai/flux/dev'' ''req-1'' (Inr (demo_response 200 []))
       = Inr (JObj [])
   \<and> get_job_result demo_lib ''fal-ai/flux/dev'' ''req-1'' (Inr (demo_response 200 []))
       = Inr (JObj [])
   \<and> cancel_job demo_lib ''fal-ai/flux/dev'' ''req-1'' (Inr (demo_response 200 []))
       = Inr (JObj [])"
  by (simp add: submit_job_def get_job_status_def get_job_result_def cancel_job_def
        request_def is_success_def demo_response_def)


subsection \<open>Progress reporting\<close>





subsection \<open>Cost and duration extraction\<close>










text \<open>
  A cost of zero in the result payload is a value of \<open>_extract_cost_usd\<close>, but the \<open>or\<close>
  of \<open>_generate_once\<close> passes it over.
\<close>

lemma zero_cost_falls_through:
  "extract_cost_usd [(''cost'', JInt 0)] = Some 0
   \<and> generation_cost_usd [(''cost'', JInt 0)] [(''cost'', JFloat (42 / 100))] = Some (42 / 100)
   \<and> generation_cost_usd [(''cost'', JInt 0)] [] = None"
  by code_simp


subsection \<open>Media URL extraction\<close>

lemma select_url_alt:
  "select_url L urls =
     (case urls of [] \<Rightarrow> None
      | first # _ \<Rightarrow> (case find (recognised L) urls of Some c \<Rightarrow> Some c | None \<Rightarrow> Some first))"
  unfolding select_url_def recognised_def by (rule refl)

lemma find_append_case:
  "find P (xs @ ys) = (case find P xs of None \<Rightarrow> find P ys | Some x \<Rightarrow> Some x)"
  by (induction xs) auto

lemma find_Some_holds: "find P xs = Some x \<Longrightarrow> P x \<and> x \<in> set xs"
  by (induction xs) (auto split: if_splits)

lemma select_url_Cons:
  "select_url L (f # r) =
     (case find (recognised L) (f # r) of Some c \<Rightarrow> Some c | None \<Rightarrow> Some f)"
  unfolding select_url_alt list.case by (rule refl)

lemma select_url_Nil [simp]: "select_url L [] = None"
  by (simp add: select_url_def)

lemma select_url_single: "select_url L [u] = Some u"
  by (simp add: select_url_def)

lemma select_url_Nil_iff: "select_url L urls = None \<longleftrightarrow> urls = []"
proof (cases urls)
  case Nil
  then show ?thesis by simp
next
  case (Cons f r)
  then show ?thesis
    by (cases "find (recognised L) (f # r)") (simp_all only: select_url_Cons option.case, simp_all)
qed

lemma select_url_in_set:
  assumes "select_url L urls = Some u"
  shows "u \<in> set urls"
proof (cases urls)
  case Nil
  then show ?thesis using assms by simp
next
  case (Cons f r)
  show ?thesis
  proof (cases "find (recognised L) (f # r)")
    case None
    then have "u = f" using assms Cons by (simp only: select_url_Cons option.case) simp
    then show ?thesis using Cons by simp
  next
    case (Some c)
    then have "u = c" using assms Cons by (simp only: select_url_Cons option.case) simp
    then show ?thesis using find_Some_holds [OF Some] Cons by simp
  qed
qed

lemma select_url_find:
  "find (recognised L) urls =
     (case select_url L urls of None \<Rightarrow> None
      | Some u \<Rightarrow> if recognised L u then Some u else None)"
proof (cases urls)
  case Nil
  then show ?thesis by simp
next
  case (Cons f r)
  show ?thesis
  proof (cases "find (recognised L) (f # r)")
    case None
    then have "\<not> recognised L f" by (auto simp: find_None_iff)
    then show ?thesis
      using None Cons by (simp only: select_url_Cons option.case) simp
  next
    case (Some c)
    then show ?thesis
      using find_Some_holds [OF Some] Cons by (simp only: select_url_Cons option.case) simp
  qed
qed

lemma select_url_append:
  "select_url L (A @ B) =
     (case select_url L A of
        None \<Rightarrow> select_url L B
      | Some a \<Rightarrow>
          if recognised L a then Some a
          else (case select_url L B of
                  None \<Rightarrow> Some a
                | Some b \<Rightarrow> if recognised L b then Some b else Some a))"
proof (cases A)
  case Nil
  then show ?thesis by simp
next
  case (Cons a0 A')
  have sA: "select_url L A =
              (case find (recognised L) A of Some c \<Rightarrow> Some c | None \<Rightarrow> Some a0)"
    unfolding Cons by (rule select_url_Cons)
  have sAB: "select_url L (A @ B) =
              (case find (recognised L) (A @ B) of Some c \<Rightarrow> Some c | None \<Rightarrow> Some a0)"
    unfolding Cons append_Cons by (rule select_url_Cons)
  show ?thesis
  proof (cases "find (recognised L) A")
    case (Some c)
    have 1: "select_url L A = Some c" unfolding sA Some by simp
    have 2: "select_url L (A @ B) = Some c"
      unfolding sAB find_append_case Some by simp
    have 3: "recognised L c" using find_Some_holds [OF Some] by simp
    show ?thesis unfolding 1 2 using 3 by simp
  next
    case None
    have 1: "select_url L A = Some a0" unfolding sA None by simp
    have 2: "select_url L (A @ B) =
               (case find (recognised L) B of Some c \<Rightarrow> Some c | None \<Rightarrow> Some a0)"
      unfolding sAB find_append_case None by simp
    have 3: "\<not> recognised L a0"
      using None unfolding Cons by (auto simp: find_None_iff)
    show ?thesis
      unfolding 1 2 select_url_find [of L B] using 3
      by (cases "select_url L B") simp_all
  qed
qed

lemma select_url_cong_append:
  "select_url L A = select_url L A' \<Longrightarrow> select_url L B = select_url L B' \<Longrightarrow>
     select_url L (A @ B) = select_url L (A' @ B')"
  by (auto simp: select_url_append split: option.splits)

lemma select_url_found:
  assumes "[] \<notin> set urls"
  shows "select_url L (found_urls (select_url L urls)) = select_url L urls"
proof (cases "select_url L urls")
  case None
  then show ?thesis by (simp add: found_urls_def)
next
  case (Some u)
  then have "u \<noteq> []" using assms select_url_in_set [OF Some] by auto
  then show ?thesis using Some by (simp add: found_urls_def select_url_single)
qed

lemma select_url_skip:
  assumes "set X \<subseteq> set P"
  shows "select_url L (P @ M @ X @ N) = select_url L (P @ M @ N)"
proof (cases P)
  case Nil
  then show ?thesis using assms by simp
next
  case (Cons p0 P')
  have f: "find (recognised L) (P @ M @ X @ N) = find (recognised L) (P @ M @ N)"
  proof (cases "find (recognised L) P")
    case (Some c)
    then show ?thesis by (simp add: find_append_case)
  next
    case None
    then have "\<forall>x \<in> set X. \<not> recognised L x"
      using assms by (auto simp: find_None_iff)
    then have "find (recognised L) X = None"
      by (simp add: find_None_iff)
    then show ?thesis by (simp add: find_append_case split: option.splits)
  qed
  have "select_url L (P @ M @ X @ N) =
          (case find (recognised L) (P @ M @ X @ N) of Some c \<Rightarrow> Some c | None \<Rightarrow> Some p0)"
    unfolding Cons append_Cons by (rule select_url_Cons)
  moreover have "select_url L (P @ M @ N) =
          (case find (recognised L) (P @ M @ N) of Some c \<Rightarrow> Some c | None \<Rightarrow> Some p0)"
    unfolding Cons append_Cons by (rule select_url_Cons)
  ultimately show ?thesis unfolding f by simp
qed

lemma candidate_nonempty:
  "[] \<notin> set (candidate_urls x)"
  "[] \<notin> set (candidate_items xs)"
  "[] \<notin> set (candidate_key key kvs)"
  "[] \<notin> set (candidate_rest kvs')"
  by (induct x and xs and key kvs and kvs'
        rule: candidate_urls_candidate_items_candidate_key_candidate_rest.induct)
     (auto simp: startswith_def)


lemma candidate_key_lookup:
  "distinct (map fst kvs) \<Longrightarrow> (k, v) \<in> set kvs \<Longrightarrow> candidate_key k kvs = candidate_urls v"
  by (induction kvs) (auto simp: rev_image_eqI)

lemma rest_vs_all:
  assumes "\<forall>(k, v) \<in> set kvs. k \<in> set PREFERRED_KEYS \<longrightarrow> set (candidate_urls v) \<subseteq> set P"
  shows "select_url L (P @ M @ concat (map (\<lambda>(k, v). candidate_urls v) kvs))
           = select_url L (P @ M @ candidate_rest kvs)"
  using assms
proof (induction kvs arbitrary: M)
  case Nil
  then show ?case by simp
next
  case (Cons kv kvs)
  obtain k v where kv: "kv = (k, v)" by (cases kv)
  have ih: "\<And>M. select_url L (P @ M @ concat (map (\<lambda>(k, v). candidate_urls v) kvs))
                  = select_url L (P @ M @ candidate_rest kvs)"
    using Cons by simp
  show ?case
  proof (cases "k \<in> set PREFERRED_KEYS")
    case True
    then have sub: "set (candidate_urls v) \<subseteq> set P"
      using Cons.prems kv by simp
    have "select_url L (P @ M @ candidate_urls v @ concat (map (\<lambda>(k, v). candidate_urls v) kvs))
            = select_url L (P @ M @ concat (map (\<lambda>(k, v). candidate_urls v) kvs))"
      by (rule select_url_skip [OF sub])
    then show ?thesis using True kv ih [of M] by simp
  next
    case False
    then show ?thesis using kv ih [of "M @ candidate_urls v"] by simp
  qed
qed

lemma extract_matches_candidates:
  "unique_keys x \<longrightarrow> extract_first_media_url L x = select_url L (candidate_urls x)"
  "unique_keys_items xs \<longrightarrow>
     select_url L (extract_items L xs) = select_url L (candidate_items xs)"
  "unique_keys_fields kvs \<longrightarrow>
     select_url L (extract_values L kvs)
       = select_url L (concat (map (\<lambda>(k, v). candidate_urls v) kvs))"
  "unique_keys_fields kvs' \<longrightarrow>
     select_url L (extract_key L key kvs') = select_url L (candidate_key key kvs')"
proof (induct L x and L xs and L kvs and L key kvs'
        rule: extract_first_media_url_extract_items_extract_values_extract_key.induct)
  case (1 L s)
  then show ?case by simp
next
  case (2 L kvs)
  show ?case
  proof
    assume u: "unique_keys (JObj kvs)"
    then have d: "distinct (map fst kvs)" and f: "unique_keys_fields kvs" by simp_all
    let ?P = "concat (map (\<lambda>key. candidate_key key kvs) PREFERRED_KEYS)"
    have keys: "\<And>key. key \<in> set PREFERRED_KEYS \<Longrightarrow>
                  select_url L (extract_key L key kvs) = select_url L (candidate_key key kvs)"
      using 2 f by (auto simp: PREFERRED_KEYS_def)
    have vals: "select_url L (extract_values L kvs)
                  = select_url L (concat (map (\<lambda>(k, v). candidate_urls v) kvs))"
      using 2 f by simp
    have "select_url L
            (extract_key L ''images'' kvs @ extract_key L ''videos'' kvs
             @ extract_key L ''audio'' kvs @ extract_key L ''url'' kvs
             @ extract_key L ''image'' kvs @ extract_key L ''video'' kvs
             @ extract_key L ''result'' kvs @ extract_key L ''output'' kvs
             @ extract_values L kvs)
          = select_url L
            (candidate_key ''images'' kvs @ candidate_key ''videos'' kvs
             @ candidate_key ''audio'' kvs @ candidate_key ''url'' kvs
             @ candidate_key ''image'' kvs @ candidate_key ''video'' kvs
             @ candidate_key ''result'' kvs @ candidate_key ''output'' kvs
             @ concat (map (\<lambda>(k, v). candidate_urls v) kvs))"
      by (intro select_url_cong_append keys vals) (simp_all add: PREFERRED_KEYS_def)
    then have "extract_first_media_url L (JObj kvs)
            = select_url L (?P @ concat (map (\<lambda>(k, v). candidate_urls v) kvs))"
      by (simp add: PREFERRED_KEYS_def)
    also have "\<dots> = select_url L (?P @ [] @ concat (map (\<lambda>(k, v). candidate_urls v) kvs))"
      by simp
    also have "\<dots> = select_url L (?P @ [] @ candidate_rest kvs)"
    proof (rule rest_vs_all, clarify)
      fix k v u assume "(k, v) \<in> set kvs" "k \<in> set PREFERRED_KEYS" "u \<in> set (candidate_urls v)"
      then have "k \<in> set PREFERRED_KEYS \<and> u \<in> set (candidate_key k kvs)"
        using candidate_key_lookup [OF d, of k v] by simp
      then show "u \<in> set ?P"
        by (simp only: set_concat set_map) blast
    qed
    finally show "extract_first_media_url L (JObj kvs) = select_url L (candidate_urls (JObj kvs))"
      by simp
  qed
next
  case (9 L x xs)
  show ?case
  proof
    assume u: "unique_keys_items (x # xs)"
    then have hx: "extract_first_media_url L x = select_url L (candidate_urls x)"
      and hxs: "select_url L (extract_items L xs) = select_url L (candidate_items xs)"
      using 9 by simp_all
    have a: "select_url L (found_urls (extract_first_media_url L x))
            = select_url L (candidate_urls x)"
      unfolding hx by (rule select_url_found) (rule candidate_nonempty)
    show "select_url L (extract_items L (x # xs)) = select_url L (candidate_items (x # xs))"
      unfolding extract_items.simps candidate_items.simps
      by (rule select_url_cong_append [OF a hxs])
  qed
next
  case (11 L k v kvs)
  show ?case
  proof
    assume u: "unique_keys_fields ((k, v) # kvs)"
    then have hx: "extract_first_media_url L v = select_url L (candidate_urls v)"
      and hxs: "select_url L (extract_values L kvs)
                  = select_url L (concat (map (\<lambda>(k, v). candidate_urls v) kvs))"
      using 11 by simp_all
    have a: "select_url L (found_urls (extract_first_media_url L v))
            = select_url L (candidate_urls v)"
      unfolding hx by (rule select_url_found) (rule candidate_nonempty)
    have "select_url L (found_urls (extract_first_media_url L v) @ extract_values L kvs)
            = select_url L (candidate_urls v @ concat (map (\<lambda>(k, v). candidate_urls v) kvs))"
      by (rule select_url_cong_append [OF a hxs])
    then show "select_url L (extract_values L ((k, v) # kvs))
                 = select_url L (concat (map (\<lambda>(k, v). candidate_urls v) ((k, v) # kvs)))"
      by simp
  qed
next
  case (13 L key k v kvs)
  show ?case
  proof
    assume u: "unique_keys_fields ((k, v) # kvs)"
    show "select_url L (extract_key L key ((k, v) # kvs))
            = select_url L (candidate_key key ((k, v) # kvs))"
    proof (cases "k = key")
      case True
      then have hx: "extract_first_media_url L v = select_url L (candidate_urls v)"
        using 13 u by simp
      have "select_url L (found_urls (extract_first_media_url L v))
              = select_url L (candidate_urls v)"
        unfolding hx by (rule select_url_found) (rule candidate_nonempty)
      then show ?thesis using True by simp
    next
      case False
      then show ?thesis using 13 u by simp
    qed
  qed
qed simp_all

text \<open>
  Claim C6. For every payload, \<open>_extract_first_media_url\<close> returns the first candidate
  URL in traversal order that the type detector recognises from its extension as image,
  video or audio; if no candidate is recognised, the first candidate; and nothing if
  there is no candidate.
\<close>

theorem media_url_selection:
  assumes "unique_keys payload"
  shows "extract_first_media_url L payload =
           (case candidate_urls payload of
              [] \<Rightarrow> None
            | first # _ \<Rightarrow>
                (case find (recognised L) (candidate_urls payload) of
                   Some candidate \<Rightarrow> Some candidate
                 | None \<Rightarrow> Some first))"
  using assms extract_matches_candidates(1) [of payload L]
  by (simp add: select_url_alt)

theorem media_url_selection_witness:
  "extract_first_media_url demo_lib demo_media = Some ''https://cdn.fal.ai/out/hero.png''
   \<and> candidate_urls demo_media
       = [''https://cdn.fal.ai/out/hero.png'', ''https://fal.media/logs/run-1'',
          ''https://fal.ai/models'']
   \<and> extract_first_media_url demo_lib
         (JArr [JStr ''ftp://x/a.png'', JStr ''https://fal.ai/a'', JStr ''https://fal.ai/b''])
       = Some ''https://fal.ai/a''
   \<and> extract_first_media_url demo_lib (JArr [JStr ''ftp://x/a.png'', JInt 3]) = None"
proof -
  have u1: "unique_keys demo_media" by code_simp
  have c1: "candidate_urls demo_media
       = [''https://cdn.fal.ai/out/hero.png'', ''https://fal.media/logs/run-1'',
          ''https://fal.ai/models'']" by code_simp
  have f1: "find (recognised demo_lib)
              [''https://cdn.fal.ai/out/hero.png'', ''https://fal.media/logs/run-1'',
               ''https://fal.ai/models''] = Some ''https://cdn.fal.ai/out/hero.png''"
    by code_simp
  have u2: "unique_keys
              (JArr [JStr ''ftp://x/a.png'', JStr ''https://fal.ai/a'', JStr ''https://fal.ai/b''])"
    by code_simp
  have c2: "candidate_urls
              (JArr [JStr ''ftp://x/a.png'', JStr ''https://fal.ai/a'', JStr ''https://fal.ai/b''])
            = [''https://fal.ai/a'', ''https://fal.ai/b'']" by code_simp
  have f2: "find (recognised demo_lib) [''https://fal.ai/a'', ''https://fal.ai/b''] = None"
    by code_simp
  have u3: "unique_keys (JArr [JStr ''ftp://x/a.png'', JInt 3])" by code_simp
  have c3: "candidate_urls (JArr [JStr ''ftp://x/a.png'', JInt 3]) = []" by code_simp
  have w1: "extract_first_media_url demo_lib demo_media
              = Some ''https://cdn.fal.ai/out/hero.png''"
    by (subst media_url_selection [OF u1]) (simp only: c1 f1 list.case option.case)
  have w2: "extract_first_media_url demo_lib
              (JArr [JStr ''ftp://x/a.png'', JStr ''https://fal.ai/a'', JStr ''https://fal.ai/b''])
            = Some ''https://fal.ai/a''"
    by (subst media_url_selection [OF u2]) (simp only: c2 f2 list.case option.case)
  have w3: "extract_first_media_url demo_lib (JArr [JStr ''ftp://x/a.png'', JInt 3]) = None"
    by (subst media_url_selection [OF u3]) (simp only: c3 list.case)
  show ?thesis
    using w1 c1 w2 w3 by (intro conjI)
qed


subsection \<open>Path resolver\<close>

lemma resolve_from_append:
  "resolve_from acc (xs @ ys) = resolve_from (resolve_from acc xs) ys"
  by (induction xs arbitrary: acc) auto

lemma resolve_from_dots:
  "resolve_from acc (replicate k ''..'') = take (length acc - k) acc"
proof (induction k arbitrary: acc)
  case 0
  then show ?case by simp
next
  case (Suc k)
  have "take (length acc - Suc k) acc = take (length (butlast acc) - k) (butlast acc)"
    by (simp add: butlast_conv_take min_def)
  then show ?case using Suc by simp
qed

lemma ancestor_escapes:
  assumes "resolve cwd = cwd" and "cwd \<noteq> []" and "0 < k"
    and "name \<noteq> ''..''" and "name \<noteq> ''.''" and "name \<noteq> []" and "name \<noteq> last cwd"
  shows "\<not> is_within (resolve (cwd @ replicate k ''..'' @ [name])) (resolve cwd)"
proof -
  have r: "resolve (cwd @ replicate k ''..'' @ [name]) = take (length cwd - k) cwd @ [name]"
    using assms(1,4,5,6)
    by (simp add: resolve_def resolve_from_append resolve_from_dots)
  have len: "length (take (length cwd - k) cwd @ [name]) \<le> length cwd"
    using assms(2,3) by (cases cwd) auto
  have ne: "take (length cwd - k) cwd @ [name] \<noteq> cwd"
    using assms(2,7) by (metis last_snoc)
  show ?thesis
    unfolding r assms(1) is_within_def using len ne by simp
qed

text \<open>
  An escaping request never yields a path: the call ends with the exception of \<open>mkdir\<close>,
  if it raises, and with \<open>PATH_TRAVERSAL_BLOCKED\<close> otherwise.
\<close>

lemma escaping_path_not_returned:
  assumes "\<not> is_within (resolve (if is_absolute p then parts p else cwd @ parts p)) (resolve cwd)"
  shows "fst (resolve_output_path fs cwd p ext) =
           (case fst (path_mkdir fs (butlast (if is_absolute p then parts p else cwd @ parts p))) of
              Some e \<Rightarrow> Some (Inl e)
            | None \<Rightarrow> Some (Inl PATH_TRAVERSAL_BLOCKED))"
proof -
  let ?raw = "if is_absolute p then parts p else cwd @ parts p"
  obtain raised fs1 where m: "path_mkdir fs (butlast ?raw) = (raised, fs1)"
    by (cases "path_mkdir fs (butlast ?raw)")
  have e: "ensure_safe_path ?raw cwd = Inl PATH_TRAVERSAL_BLOCKED"
    using assms by (simp add: ensure_safe_path_def)
  show ?thesis
    unfolding resolve_output_path_def Let_def m e
    by (cases raised) simp_all
qed

text \<open>
  Claim C3 at a concrete input. With the working root \<open>/work\<close> and the request
  \<open>../escape/out.png\<close>, both \<open>resolve_output_path\<close> and \<open>copy_to_repo\<close> reject the
  path, but the directory \<open>/escape\<close>, outside the root, has been created by then: the
  parent directories are made before the check.
\<close>

theorem directory_created_before_rejection:
  "resolve_output_path \<lparr> dirs = {[], [''work'']}, files = {}, protected = {} \<rparr>
       [''work''] (Path ''../escape/out.png'') None
     = (Some (Inl PATH_TRAVERSAL_BLOCKED),
        \<lparr> dirs = {[], [''work''], [''escape'']}, files = {}, protected = {} \<rparr>)
   \<and> copy_to_repo \<lparr> dirs = {[], [''work'']}, files = {[''work'', ''a.png'']}, protected = {} \<rparr>
         [''work''] [''work'', ''a.png''] (Path ''../escape/out.png'')
     = (Some (Inl PATH_TRAVERSAL_BLOCKED),
        \<lparr> dirs = {[], [''work''], [''escape'']}, files = {[''work'', ''a.png'']},
          protected = {} \<rparr>)
   \<and> [''escape''] \<notin> {[], [''work''], [''work'', ''a.png'']}
   \<and> \<not> is_within [''escape''] (resolve [''work''])"
  by code_simp

text \<open>
  Claim C4 at concrete inputs. The parent directories are made before the check, so for
  an escaping path whose parent cannot be made the call ends with the exception of
  \<open>mkdir\<close> and not with \<open>PATH_TRAVERSAL_BLOCKED\<close>: \<open>FileExistsError\<close> for the absolute path
  \<open>/etc/passwd/x.png\<close>, where a regular file is in the way, and \<open>PermissionError\<close> for
  \<open>../nonexistent/x.png\<close> below a root directory that may not be written.
\<close>

theorem escaping_path_other_error:
  "resolve_output_path
       \<lparr> dirs = {[], [''work''], [''etc'']}, files = {[''etc'', ''passwd'']}, protected = {} \<rparr>
       [''work''] (Path ''/etc/passwd/x.png'') None
     = (Some (Inl FileExistsError),
        \<lparr> dirs = {[], [''work''], [''etc'']}, files = {[''etc'', ''passwd'']}, protected = {} \<rparr>)
   \<and> \<not> is_within (resolve (parts (Path ''/etc/passwd/x.png''))) (resolve [''work''])
   \<and> resolve_output_path
       \<lparr> dirs = {[], [''work'']}, files = {}, protected = {[]} \<rparr>
       [''work''] (Path ''../nonexistent/x.png'') None
     = (Some (Inl PermissionError),
        \<lparr> dirs = {[], [''work'']}, files = {}, protected = {[]} \<rparr>)
   \<and> \<not> is_within (resolve ([''work''] @ parts (Path ''../nonexistent/x.png''))) (resolve [''work''])
   \<and> FileExistsError \<noteq> PATH_TRAVERSAL_BLOCKED
   \<and> PermissionError \<noteq> PATH_TRAVERSAL_BLOCKED"
  by code_simp

subsection \<open>Status stream and completion\<close>




lemma sse_loop_returned:
  "sse_loop L cb ending lines dl lp tr = (tr', Returned p) \<Longrightarrow> is_terminal (status_value L p)"
proof (induction lines arbitrary: dl lp tr)
  case Nil
  then show ?case by (simp split: option.splits)
next
  case (Cons line rest)
  show ?case
  proof (cases "startswith line ''data:'' \<or> strip line \<noteq> [] \<or> dl = []
                \<or> strip (join_newline dl) = []")
    case True
    then show ?thesis using Cons by (auto split: if_splits)
  next
    case False
    show ?thesis
    proof (cases "json_loads L (strip (join_newline dl))")
      case None
      then show ?thesis using Cons False by simp
    next
      case (Some v)
      show ?thesis
      proof (cases v)
        case (JObj payload)
        obtain tr2 raised where n: "notify cb payload tr = (tr2, raised)"
          by (cases "notify cb payload tr")
        show ?thesis
          using Cons False Some JObj n
          by (cases raised; cases "is_terminal (status_value L payload)") auto
      qed (use Cons False Some in auto)
    qed
  qed
qed


lemma stream_returns_terminal:
  assumes "stream_job_status L cb m rid conn = (tr, Inr p)"
  shows "is_terminal (status_value L p)"
proof (cases conn)
  case (ConnectFailed e)
  then show ?thesis using assms by (simp add: stream_job_status_def)
next
  case (Connected code lines ending)
  obtain tr2 ex where l: "sse_loop L cb ending lines [] None [] = (tr2, ex)"
    by (cases "sse_loop L cb ending lines [] None []")
  show ?thesis
  proof (cases ex)
    case (Returned q)
    then have "q = p" using assms Connected l
      by (simp add: stream_job_status_def split: if_splits)
    then show ?thesis using sse_loop_returned l Returned by blast
  next
    case (Raised e)
    then show ?thesis using assms Connected l
      by (simp add: stream_job_status_def split: if_splits)
  next
    case (Exhausted lp)
    then show ?thesis using assms Connected l
      by (cases lp) (auto simp: stream_job_status_def split: if_splits)
  qed
qed


lemma sse_loop_frame_lines:
  assumes "\<forall>l \<in> set frame. startswith l ''data:'' \<or> strip l \<noteq> []"
  shows "sse_loop L on_status ending (frame @ rest) data_lines last_payload trace
           = sse_loop L on_status ending rest (data_lines @ frame_data frame) last_payload trace"
  using assms
  by (induction frame arbitrary: data_lines) (auto simp: frame_data_def)

lemma sse_loop_blank_skips:
  assumes "\<not> startswith blank ''data:''" and "strip blank = []" and "data_lines \<noteq> []"
    and "strip (join_newline data_lines) = []
         \<or> json_loads L (strip (join_newline data_lines)) = None
         \<or> (\<exists>v. json_loads L (strip (join_newline data_lines)) = Some v
                \<and> (\<forall>payload. v \<noteq> JObj payload))"
  shows "sse_loop L on_status ending (blank # rest) data_lines last_payload trace
           = sse_loop L on_status ending rest [] last_payload trace"
  using assms by (auto split: option.splits json.splits)

text \<open>
  Claim C10. While the status stream is read, a frame (the lines up to a blank line)
  whose joined data payload is empty, is not valid JSON, or parses to a value that is not
  an object is skipped: the loop goes on with the lines after it in the same state, so
  nothing is raised, the callback is not called (the trace is unchanged) and the last
  decoded payload is unchanged.
\<close>

theorem malformed_frame_skipped:
  assumes "\<forall>l \<in> set frame. startswith l ''data:'' \<or> strip l \<noteq> []"
    and "frame_data frame \<noteq> []"
    and "\<not> startswith blank ''data:''" and "strip blank = []"
    and "strip (join_newline (frame_data frame)) = []
         \<or> json_loads L (strip (join_newline (frame_data frame))) = None
         \<or> (\<exists>v. json_loads L (strip (join_newline (frame_data frame))) = Some v
                \<and> (\<forall>payload. v \<noteq> JObj payload))"
  shows "sse_loop L on_status ending (frame @ blank # rest) [] last_payload trace
           = sse_loop L on_status ending rest [] last_payload trace"
proof -
  have "sse_loop L on_status ending (frame @ blank # rest) [] last_payload trace
          = sse_loop L on_status ending (blank # rest) (frame_data frame) last_payload trace"
    using sse_loop_frame_lines [OF assms(1), of L on_status ending "blank # rest" "[]"] by simp
  also have "\<dots> = sse_loop L on_status ending rest [] last_payload trace"
    by (rule sse_loop_blank_skips [OF assms(3) assms(4) assms(2) assms(5)])
  finally show ?thesis .
qed

theorem malformed_frame_skipped_witness:
  "sse_loop demo_lib demo_callback None ([''data: oops''] @ '''' # demo_completed_frame) [] None []
     = ([demo_completed_payload], Returned demo_completed_payload)
   \<and> sse_loop demo_lib demo_callback None
         ([''event: status'', ''data: [1]''] @ '''' # demo_completed_frame) [] None []
     = ([demo_completed_payload], Returned demo_completed_payload)
   \<and> sse_loop demo_lib demo_callback None ([''data:   ''] @ '' '' # demo_completed_frame) [] None []
     = ([demo_completed_payload], Returned demo_completed_payload)"
proof -
  have good: "sse_loop demo_lib demo_callback None demo_completed_frame [] None []
                = ([demo_completed_payload], Returned demo_completed_payload)"
    by code_simp
  have b1: "\<forall>l \<in> set [''data: oops'']. startswith l ''data:'' \<or> strip l \<noteq> []"
    by (simp add: startswith_def)
  have b2: "\<forall>l \<in> set [''event: status'', ''data: [1]'']. startswith l ''data:'' \<or> strip l \<noteq> []"
    by code_simp
  have b3: "\<forall>l \<in> set [''data:   '']. startswith l ''data:'' \<or> strip l \<noteq> []"
    by (simp add: startswith_def)
  have d1: "frame_data [''data: oops''] \<noteq> []" by code_simp
  have d2: "frame_data [''event: status'', ''data: [1]''] \<noteq> []" by code_simp
  have d3: "frame_data [''data:   ''] \<noteq> []" by code_simp
  have n1: "\<not> startswith '''' ''data:''" and s1: "strip '''' = []" by code_simp+
  have n3: "\<not> startswith '' '' ''data:''" and s3: "strip '' '' = []" by code_simp+
  have k1: "strip (join_newline (frame_data [''data: oops''])) = []
         \<or> json_loads demo_lib (strip (join_newline (frame_data [''data: oops'']))) = None
         \<or> (\<exists>v. json_loads demo_lib (strip (join_newline (frame_data [''data: oops''])))
                   = Some v \<and> (\<forall>payload. v \<noteq> JObj payload))"
  proof -
    have "json_loads demo_lib (strip (join_newline (frame_data [''data: oops'']))) = None"
      by code_simp
    then show ?thesis by blast
  qed
  have k2: "strip (join_newline (frame_data [''event: status'', ''data: [1]''])) = []
         \<or> json_loads demo_lib
              (strip (join_newline (frame_data [''event: status'', ''data: [1]'']))) = None
         \<or> (\<exists>v. json_loads demo_lib
                    (strip (join_newline (frame_data [''event: status'', ''data: [1]''])))
                   = Some v \<and> (\<forall>payload. v \<noteq> JObj payload))"
  proof -
    have "json_loads demo_lib
            (strip (join_newline (frame_data [''event: status'', ''data: [1]''])))
          = Some (JArr [JInt 1])"
      by code_simp
    then show ?thesis by simp
  qed
  have k3: "strip (join_newline (frame_data [''data:   ''])) = []
         \<or> json_loads demo_lib (strip (join_newline (frame_data [''data:   '']))) = None
         \<or> (\<exists>v. json_loads demo_lib (strip (join_newline (frame_data [''data:   ''])))
                   = Some v \<and> (\<forall>payload. v \<noteq> JObj payload))"
  proof -
    have "strip (join_newline (frame_data [''data:   ''])) = []" by code_simp
    then show ?thesis by blast
  qed
  show ?thesis
    using malformed_frame_skipped [OF b1 d1 n1 s1 k1, of demo_callback None demo_completed_frame
        None "[]"]
      malformed_frame_skipped [OF b2 d2 n1 s1 k2, of demo_callback None demo_completed_frame
        None "[]"]
      malformed_frame_skipped [OF b3 d3 n3 s3 k3, of demo_callback None demo_completed_frame
        None "[]"]
    unfolding good by (intro conjI)
qed

lemma wait_for_completion_cases:
  assumes "stream_job_status L cb m rid conn = (trace, streamed)"
  shows "wait_for_completion L cb m rid conn polls t i =
           (case streamed of
              Inl e \<Rightarrow>
                if error_code e = Some ''SSE_UNAVAILABLE''
                then poll_loop L cb rid polls t i 0 0 trace
                else Some (trace, Inl e)
            | Inr terminal \<Rightarrow>
                if status_value L terminal = ''COMPLETED'' then Some (trace, Inr terminal)
                else Some (trace, Inl (GenvoyToolError ''JOB_FAILED'' (JobPayload terminal))))"
proof (cases streamed)
  case (Inl e)
  then show ?thesis
    using assms
    by (cases e) (simp_all add: wait_for_completion_def stream_attempt_def error_code_def)
next
  case (Inr terminal)
  then have "is_terminal (status_value L terminal)"
    using assms stream_returns_terminal by blast
  then show ?thesis
    using assms Inr
    by (auto simp: wait_for_completion_def stream_attempt_def is_terminal_def)
qed

text \<open>
  Claim C2. Whatever the stream attempt gives, \<open>wait_for_completion\<close> runs the polling
  loop exactly when the attempt fails with the code \<open>SSE_UNAVAILABLE\<close>. Every other
  exception of the attempt is the result as it is, and a terminal frame of the stream
  decides the result alone (the payload when \<open>COMPLETED\<close>, \<open>JOB_FAILED\<close> when \<open>FAILED\<close>):
  in both cases the result does not depend on the polls.
\<close>

theorem fallback_only_on_stream_unavailable:
  assumes "stream_job_status L cb m rid conn = (trace, streamed)"
  shows "wait_for_completion L cb m rid conn polls t i =
           (case streamed of
              Inl e \<Rightarrow>
                if error_code e = Some ''SSE_UNAVAILABLE''
                then poll_loop L cb rid polls t i 0 0 trace
                else Some (trace, Inl e)
            | Inr terminal \<Rightarrow>
                if status_value L terminal = ''COMPLETED'' then Some (trace, Inr terminal)
                else Some (trace, Inl (GenvoyToolError ''JOB_FAILED'' (JobPayload terminal))))"
  by (rule wait_for_completion_cases [OF assms])

theorem fallback_only_on_stream_unavailable_witness:
  "wait_for_completion demo_lib demo_callback ''fal-ai/flux/dev'' ''req-2''
       (Connected 404 [] None) demo_polls 30 2
     = Some ([[(''status'', JStr ''IN_PROGRESS''), (''progress'', JInt 25)],
              demo_completed_payload],
             Inr demo_completed_payload)
   \<and> wait_for_completion demo_lib demo_callback ''fal-ai/flux/dev'' ''req-2''
       (Connected 200 demo_failed_frame None) demo_polls 30 2
     = Some ([[(''status'', JStr ''FAILED'')]],
             Inl (GenvoyToolError ''JOB_FAILED'' (JobPayload [(''status'', JStr ''FAILED'')])))
   \<and> wait_for_completion demo_lib demo_raising_callback ''fal-ai/flux/dev'' ''req-2''
       (Connected 200 demo_completed_frame None) demo_polls 30 2
     = Some ([demo_completed_payload], Inl (OtherException ''boom''))"
proof -
  have s1: "stream_job_status demo_lib demo_callback ''fal-ai/flux/dev'' ''req-2''
              (Connected 404 [] None)
            = ([], Inl (GenvoyToolError ''SSE_UNAVAILABLE''
                          (Text ''SSE stream unavailable for fal-ai/flux/dev/req-2.'')))"
    by code_simp
  have v0: "status_value demo_lib [(''status'', JStr ''IN_PROGRESS''), (''progress'', JInt 25)]
              = ''IN_PROGRESS''"
    by code_simp
  have v1: "status_value demo_lib demo_completed_payload = ''COMPLETED''"
    by code_simp
  have p1: "poll_loop demo_lib demo_callback ''req-2'' demo_polls 30 2 0 0 []
            = Some ([[(''status'', JStr ''IN_PROGRESS''), (''progress'', JInt 25)],
                     demo_completed_payload],
                    Inr demo_completed_payload)"
    by (subst poll_loop.simps, simp add: demo_polls_def notify_def demo_callback_def v0 v1)+
  have s2: "stream_job_status demo_lib demo_callback ''fal-ai/flux/dev'' ''req-2''
              (Connected 200 demo_failed_frame None)
            = ([[(''status'', JStr ''FAILED'')]], Inr [(''status'', JStr ''FAILED'')])"
    by code_simp
  have v2: "status_value demo_lib [(''status'', JStr ''FAILED'')] \<noteq> ''COMPLETED''"
    by code_simp
  have s3: "stream_job_status demo_lib demo_raising_callback ''fal-ai/flux/dev'' ''req-2''
              (Connected 200 demo_completed_frame None)
            = ([demo_completed_payload], Inl (OtherException ''boom''))"
    by code_simp
  have w1: "wait_for_completion demo_lib demo_callback ''fal-ai/flux/dev'' ''req-2''
              (Connected 404 [] None) demo_polls 30 2
            = poll_loop demo_lib demo_callback ''req-2'' demo_polls 30 2 0 0 []"
    using fallback_only_on_stream_unavailable [OF s1, of demo_polls 30 2]
    by (simp add: error_code_def)
  have w2: "wait_for_completion demo_lib demo_callback ''fal-ai/flux/dev'' ''req-2''
       (Connected 200 demo_failed_frame None) demo_polls 30 2
     = Some ([[(''status'', JStr ''FAILED'')]],
             Inl (GenvoyToolError ''JOB_FAILED'' (JobPayload [(''status'', JStr ''FAILED'')])))"
    using fallback_only_on_stream_unavailable [OF s2, of demo_polls 30 2] v2
    by simp
  have w3: "wait_for_completion demo_lib demo_raising_callback ''fal-ai/flux/dev'' ''req-2''
       (Connected 200 demo_completed_frame None) demo_polls 30 2
     = Some ([demo_completed_payload], Inl (OtherException ''boom''))"
    using fallback_only_on_stream_unavailable [OF s3, of demo_polls 30 2]
    by (simp add: error_code_def)
  show ?thesis
    using w1 p1 w2 w3 by simp
qed




end
